theory Spec2Isabelle
  imports Main "HOL-Library.Word"
begin

section \<open>The stream pipeline of pkg/stream/stream.go\<close>

text \<open>
  The Go file defines one struct, \<^verbatim>\<open>stream[T]\<close>, with pointer-receiver methods that
  register stages (Skip, Trim, Map, Reduce, Filter, Sorted, Split, Go) and terminal
  methods (Slice, Any, None, Count, Sum, Contains). The methods are embedded as
  functions on a record of the struct's fields that return the updated record.
  A call that does not return normally is a value: a runtime panic, or a goroutine
  parked for ever.
\<close>

subsection \<open>Outcomes of a call\<close>

datatype fault = IndexOutOfRange | DivideByZero | NilMapWrite | NegativeWaitGroup

datatype 'r outcome = Returned 'r | Panicked fault | Blocked

type_synonym int64 = "64 word"

subsection \<open>The liveness tracker\<close>

text \<open>
  Modelled from the spec: the type \<^verbatim>\<open>tools.Bitmask\<close> of internal/tools is not part
  of the sources at hand. The spec describes it as a flag per index over [0, N), true
  meaning that the element is still part of the logical sequence. It is a list of
  flags here; an index beyond the list is not live.
\<close>

type_synonym Bitmask = "bool list"

text \<open>Modelled from the spec: reading a single flag of the tracker.\<close>

definition Get :: "Bitmask \<Rightarrow> nat \<Rightarrow> bool" where
  "Get b i = (i < length b \<and> b ! i)"

text \<open>
  Modelled from the spec: \<^verbatim>\<open>PutLine(lo, hi, v)\<close> bulk-sets the flags of the range
  [lo, hi). The constructor calls it on the zero value of the tracker and expects a
  fully live tracker over the input, so the domain grows up to hi.
\<close>

definition PutLine :: "nat \<Rightarrow> nat \<Rightarrow> bool \<Rightarrow> Bitmask \<Rightarrow> Bitmask" where
  "PutLine lo hi v b =
     map (\<lambda>i. if lo \<le> i \<and> i < hi then v else Get b i) [0..<max (length b) hi]"

text \<open>
  Modelled from the spec: \<^verbatim>\<open>Apply(buffer)\<close> compacts, it returns a new buffer that
  holds exactly the live elements in their original relative order.
\<close>

definition Apply :: "Bitmask \<Rightarrow> 'a list \<Rightarrow> 'a list" where
  "Apply b buf = map (\<lambda>i. buf ! i) (filter (Get b) [0..<length buf])"

text \<open>Modelled from the spec: \<^verbatim>\<open>CountOnes\<close> counts the live flags.\<close>

definition CountOnes :: "Bitmask \<Rightarrow> nat" where
  "CountOnes b = length (filter (\<lambda>x. x) b)"


subsection \<open>Stages, closures and the stream struct\<close>

text \<open>
  Modelled from the spec: the type \<^verbatim>\<open>Operation[T]\<close> is declared outside the file at
  hand. The file builds it from the fields id, sync and fn and calls its methods
  \<^verbatim>\<open>Sync()\<close> and \<^verbatim>\<open>Do(dt, bm)\<close>; the spec describes a stage as an identity, a
  transform and a mode flag. The transform mutates the chunk in place and is a
  function from the chunk and its tracker view to the new chunk here.
\<close>

record 'a Operation =
  op_id :: nat
  op_sync :: bool
  op_fn :: "'a list \<Rightarrow> Bitmask \<Rightarrow> 'a list"



text \<open>
  The closures that the methods append to the field \<^verbatim>\<open>fns\<close>, one constructor per
  closure literal of the file, each with the values it captures. Sorted appends two
  closures. No statement of the file reads \<^verbatim>\<open>fns\<close>: it is only ever the left-hand
  side and the first argument of an append.
\<close>

datatype 'a fn =
    SkipFn nat
  | TrimFn nat
  | ReduceFn "'a \<Rightarrow> 'a \<Rightarrow> 'a"
  | FilterFn "'a \<Rightarrow> bool"
  | SortChunkFn "'a \<Rightarrow> 'a \<Rightarrow> bool"
  | SortAllFn "'a \<Rightarrow> 'a \<Rightarrow> bool"
  | SliceFn
  | SumFn "int64 \<Rightarrow> 'a \<Rightarrow> int64"

text \<open>
  The fields of the struct. \<^verbatim>\<open>onceRun\<close> is the flag of the \<^verbatim>\<open>sync.Once\<close>;
  \<^verbatim>\<open>stopWrkrs\<close> tells whether the stop channel has been made; \<^verbatim>\<open>syncMx\<close> and
  \<^verbatim>\<open>doneMx\<close> tell whether the mutex is held; \<^verbatim>\<open>doneSet\<close> is the map \<^verbatim>\<open>done\<close>
  with \<open>None\<close> for the nil map; \<^verbatim>\<open>parked\<close> counts the worker goroutines started.
  The mutexes \<^verbatim>\<open>dtMu\<close> and \<^verbatim>\<open>mbMx\<close> are released by every path that takes them and
  have no field.

  The channel \<^verbatim>\<open>tasks\<close> has no field either: the file never makes it, so it is the
  nil channel in every state. A send on it and a receive from it park the goroutine
  for ever: a send is the outcome \<open>Blocked\<close>, and a started worker, which selects
  on \<^verbatim>\<open>tasks\<close> and on a stop channel that nothing closes, never takes a step.
\<close>

record 'a stream =
  onceRun :: bool
  wrksCnt :: nat
  stopWrkrs :: bool
  syncMx :: bool
  doneSet :: "nat set option"
  doneMx :: bool
  ops :: "'a Operation list"
  opsIdx :: nat
  fns :: "'a fn list"
  dt :: "'a list"
  bm :: Bitmask
  parked :: nat

definition Stream :: "'a list \<Rightarrow> 'a stream" where
  "Stream data =
     \<lparr>onceRun = False, wrksCnt = 1, stopWrkrs = False, syncMx = False,
      doneSet = None, doneMx = False, ops = [], opsIdx = 0, fns = [],
      dt = data, bm = PutLine 0 (length data) True [], parked = 0\<rparr>"

definition S :: "'a list \<Rightarrow> 'a stream" where
  "S data = Stream data"

subsection \<open>Stage registration\<close>

definition Skip :: "nat \<Rightarrow> 'a stream \<Rightarrow> 'a stream" where
  "Skip n st = st\<lparr>fns := fns st @ [SkipFn n]\<rparr>"

definition Trim :: "nat \<Rightarrow> 'a stream \<Rightarrow> 'a stream" where
  "Trim n st = st\<lparr>fns := fns st @ [TrimFn n]\<rparr>"

text \<open>
  The closure of Map: every live element of the chunk is replaced by its image. The
  identity of the stage comes from \<^verbatim>\<open>uuid.New()\<close> and is an argument here.
\<close>

definition map_fn :: "('a \<Rightarrow> 'a) \<Rightarrow> 'a list \<Rightarrow> Bitmask \<Rightarrow> 'a list" where
  "map_fn f d b = map (\<lambda>i. if Get b i then f (d ! i) else d ! i) [0..<length d]"

definition Map :: "nat \<Rightarrow> ('a \<Rightarrow> 'a) \<Rightarrow> 'a stream \<Rightarrow> 'a stream" where
  "Map uid f st =
     st\<lparr>ops := ops st @ [\<lparr>op_id = uid, op_sync = False, op_fn = map_fn f\<rparr>]\<rparr>"

definition Reduce :: "('a \<Rightarrow> 'a \<Rightarrow> 'a) \<Rightarrow> 'a stream \<Rightarrow> 'a stream" where
  "Reduce f st = st\<lparr>fns := fns st @ [ReduceFn f]\<rparr>"

definition Filter :: "('a \<Rightarrow> bool) \<Rightarrow> 'a stream \<Rightarrow> 'a stream" where
  "Filter p st = st\<lparr>fns := fns st @ [FilterFn p]\<rparr>"

text \<open>
  The comparison that both closures of Sorted hand to \<^verbatim>\<open>sort.Slice\<close>:
  \<^verbatim>\<open>func(i, j int) bool { return less(dt[j], dt[j]) }\<close>.
\<close>

definition sorted_cmp :: "('a \<Rightarrow> 'a \<Rightarrow> bool) \<Rightarrow> 'a list \<Rightarrow> nat \<Rightarrow> nat \<Rightarrow> bool" where
  "sorted_cmp lss d i j = lss (d ! j) (d ! j)"

definition Sorted :: "('a \<Rightarrow> 'a \<Rightarrow> bool) \<Rightarrow> 'a stream \<Rightarrow> 'a stream" where
  "Sorted lss st = st\<lparr>fns := fns st @ [SortChunkFn lss, SortAllFn lss]\<rparr>"

definition Go :: "nat \<Rightarrow> 'a stream \<Rightarrow> 'a stream" where
  "Go n st = st"

definition Split :: "('a \<Rightarrow> 'a list) \<Rightarrow> 'a stream \<Rightarrow> 'a stream" where
  "Split sp st = st"

subsection \<open>Running the pipeline\<close>

text \<open>
  \<^verbatim>\<open>nextOp\<close> increments the index first and then reads the stage list at the old
  index; Go checks the bounds of the read.
\<close>

definition nextOp :: "'a stream \<Rightarrow> 'a Operation outcome \<times> 'a stream" where
  "nextOp st =
     (let st1 = st\<lparr>opsIdx := opsIdx st + 1\<rparr>
      in if opsIdx st1 - 1 < length (ops st1)
         then (Returned (ops st1 ! (opsIdx st1 - 1)), st1)
         else (Panicked IndexOutOfRange, st1))"

text \<open>
  The loop of \<^verbatim>\<open>addTasks\<close>. Its body starts with a send on \<^verbatim>\<open>tasks\<close>, so the
  first iteration never ends.
\<close>

definition addTasks_loop :: "nat \<Rightarrow> nat \<Rightarrow> nat \<Rightarrow> nat \<Rightarrow> unit outcome" where
  "addTasks_loop lf rg blockSize dataLen = (if lf < dataLen then Blocked else Returned ())"

text \<open>
  The constant \<^verbatim>\<open>minSplitLen\<close> is declared outside the file and is an argument. The
  function \<^verbatim>\<open>min\<close> of the file is \<^const>\<open>min\<close> on \<^typ>\<open>nat\<close>. An integer
  division by zero panics in Go.
\<close>

definition addTasks :: "nat \<Rightarrow> 'a stream \<Rightarrow> unit outcome \<times> 'a stream" where
  "addTasks minSplitLen st =
     (let d = Apply (bm st) (dt st);
          st1 = st\<lparr>dt := d, bm := PutLine 0 (length d) True (bm st)\<rparr>;
          dataLen = length d;
          blockSize0 = min minSplitLen dataLen
      in if wrksCnt st1 = 0 then (Panicked DivideByZero, st1)
         else
           (let blockSize = (if dataLen div wrksCnt st1 > blockSize0
                             then dataLen div wrksCnt st1 else blockSize0)
            in case nextOp st1 of
                 (Returned op, st2) \<Rightarrow> (addTasks_loop 0 blockSize blockSize dataLen, st2)
               | (Panicked e, st2) \<Rightarrow> (Panicked e, st2)
               | (Blocked, st2) \<Rightarrow> (Blocked, st2)))"

text \<open>
  \<^verbatim>\<open>startWorkers\<close> makes the stop channel and starts \<^verbatim>\<open>wrksCnt\<close> goroutines, which
  park in their select.
\<close>

definition startWorkers :: "'a stream \<Rightarrow> 'a stream" where
  "startWorkers st = st\<lparr>stopWrkrs := True, parked := parked st + wrksCnt st\<rparr>"

text \<open>
  \<^verbatim>\<open>run\<close> goes through \<^verbatim>\<open>sync.Once\<close>: the function runs only while the flag is
  unset, and the flag is set when the function returns or panics.
\<close>

definition run :: "nat \<Rightarrow> 'a stream \<Rightarrow> unit outcome \<times> 'a stream" where
  "run minSplitLen st =
     (if onceRun st then (Returned (), st)
      else case addTasks minSplitLen st of
             (Returned u, st1) \<Rightarrow> (Returned (), (startWorkers st1)\<lparr>onceRun := True\<rparr>)
           | (Panicked e, st1) \<Rightarrow> (Panicked e, st1\<lparr>onceRun := True\<rparr>)
           | (Blocked, st1) \<Rightarrow> (Blocked, st1))"

subsection \<open>Terminal operations\<close>

text \<open>
  Slice returns its local variable \<^verbatim>\<open>data\<close>, which starts as the nil slice and is
  assigned only inside the closure that Slice appends to \<^verbatim>\<open>fns\<close>.
\<close>

definition Slice :: "nat \<Rightarrow> 'a stream \<Rightarrow> 'a list outcome \<times> 'a stream" where
  "Slice minSplitLen st =
     (case run minSplitLen (st\<lparr>fns := fns st @ [SliceFn]\<rparr>) of
        (Returned u, st1) \<Rightarrow> (Returned [], st1)
      | (Panicked e, st1) \<Rightarrow> (Panicked e, st1)
      | (Blocked, st1) \<Rightarrow> (Blocked, st1))"

definition Count :: "nat \<Rightarrow> 'a stream \<Rightarrow> int outcome \<times> 'a stream" where
  "Count minSplitLen st =
     (case run minSplitLen st of
        (Returned u, st1) \<Rightarrow> (Returned (int (CountOnes (bm st1))), st1)
      | (Panicked e, st1) \<Rightarrow> (Panicked e, st1)
      | (Blocked, st1) \<Rightarrow> (Blocked, st1))"

definition NoneT :: "nat \<Rightarrow> 'a stream \<Rightarrow> bool outcome \<times> 'a stream" where
  "NoneT minSplitLen st =
     (case Count minSplitLen st of
        (Returned c, st1) \<Rightarrow> (Returned (c = 0), st1)
      | (Panicked e, st1) \<Rightarrow> (Panicked e, st1)
      | (Blocked, st1) \<Rightarrow> (Blocked, st1))"

definition Any :: "nat \<Rightarrow> 'a stream \<Rightarrow> bool outcome \<times> 'a stream" where
  "Any minSplitLen st =
     (case NoneT minSplitLen st of
        (Returned b, st1) \<Rightarrow> (Returned (\<not> b), st1)
      | (Panicked e, st1) \<Rightarrow> (Panicked e, st1)
      | (Blocked, st1) \<Rightarrow> (Blocked, st1))"

text \<open>
  The argument of Sum may be the nil function, \<open>None\<close> here. The accumulator
  \<^verbatim>\<open>s\<close> starts at zero and is assigned only inside the closure appended to
  \<^verbatim>\<open>fns\<close>.
\<close>

definition Sum :: "nat \<Rightarrow> (int64 \<Rightarrow> 'a \<Rightarrow> int64) option \<Rightarrow> 'a stream
    \<Rightarrow> int64 outcome \<times> 'a stream" where
  "Sum minSplitLen sumf st =
     (case sumf of
        None \<Rightarrow> (Returned 0, st)
      | Some f \<Rightarrow>
          (case run minSplitLen (st\<lparr>fns := fns st @ [SumFn f]\<rparr>) of
             (Returned u, st1) \<Rightarrow> (Returned 0, st1)
           | (Panicked e, st1) \<Rightarrow> (Panicked e, st1)
           | (Blocked, st1) \<Rightarrow> (Blocked, st1)))"

text \<open>The loop of Contains over the buffer, leaving at the first hit.\<close>

fun contains_loop :: "'a list \<Rightarrow> 'a \<Rightarrow> ('a \<Rightarrow> 'a \<Rightarrow> bool) \<Rightarrow> bool" where
  "contains_loop [] item eq = False"
| "contains_loop (x # xs) item eq = (if eq x item then True else contains_loop xs item eq)"

definition Contains :: "'a \<Rightarrow> ('a \<Rightarrow> 'a \<Rightarrow> bool) \<Rightarrow> 'a stream \<Rightarrow> bool outcome \<times> 'a stream" where
  "Contains item eq st = (Returned (contains_loop (dt st) item eq), st)"

subsection \<open>Sequences of calls\<close>

text \<open>
  The registration and configuration calls as data, so that a pipeline declaration is a
  list of calls, and the terminal calls likewise, with one type for their results.
\<close>

datatype 'a call =
    CSkip nat
  | CTrim nat
  | CMap nat "'a \<Rightarrow> 'a"
  | CReduce "'a \<Rightarrow> 'a \<Rightarrow> 'a"
  | CFilter "'a \<Rightarrow> bool"
  | CSorted "'a \<Rightarrow> 'a \<Rightarrow> bool"
  | CSplit "'a \<Rightarrow> 'a list"
  | CGo nat

fun register :: "'a call \<Rightarrow> 'a stream \<Rightarrow> 'a stream" where
  "register (CSkip n) st = Skip n st"
| "register (CTrim n) st = Trim n st"
| "register (CMap uid f) st = Map uid f st"
| "register (CReduce f) st = Reduce f st"
| "register (CFilter p) st = Filter p st"
| "register (CSorted lss) st = Sorted lss st"
| "register (CSplit sp) st = Split sp st"
| "register (CGo n) st = Go n st"

datatype 'a tcall =
    TSlice
  | TAny
  | TNone
  | TCount
  | TSum "(int64 \<Rightarrow> 'a \<Rightarrow> int64) option"
  | TContains 'a "'a \<Rightarrow> 'a \<Rightarrow> bool"

datatype 'a result = RSlice "'a list" | RBool bool | RInt int | RInt64 int64

definition lift_outcome :: "('r \<Rightarrow> 'b) \<Rightarrow> 'r outcome \<times> 's \<Rightarrow> 'b outcome \<times> 's" where
  "lift_outcome g p =
     (case p of
        (Returned v, s) \<Rightarrow> (Returned (g v), s)
      | (Panicked e, s) \<Rightarrow> (Panicked e, s)
      | (Blocked, s) \<Rightarrow> (Blocked, s))"

fun terminal :: "nat \<Rightarrow> 'a tcall \<Rightarrow> 'a stream \<Rightarrow> 'a result outcome \<times> 'a stream" where
  "terminal m TSlice st = lift_outcome RSlice (Slice m st)"
| "terminal m TAny st = lift_outcome RBool (Any m st)"
| "terminal m TNone st = lift_outcome RBool (NoneT m st)"
| "terminal m TCount st = lift_outcome RInt (Count m st)"
| "terminal m (TSum sumf) st = lift_outcome RInt64 (Sum m sumf st)"
| "terminal m (TContains item eq) st = lift_outcome RBool (Contains item eq st)"

text \<open>
  The struct after a sequence of calls on it. A terminal call leaves the struct as it
  was when the call returned, panicked (the caller may recover) or parked.
\<close>

datatype 'a action = Reg "'a call" | Term "'a tcall"

fun act :: "nat \<Rightarrow> 'a stream \<Rightarrow> 'a action \<Rightarrow> 'a stream" where
  "act m st (Reg c) = register c st"
| "act m st (Term t) = snd (terminal m t st)"

definition after :: "nat \<Rightarrow> 'a action list \<Rightarrow> 'a stream \<Rightarrow> 'a stream" where
  "after m acts st = foldl (act m) st acts"

text \<open>
  The terminal calls that go through \<^verbatim>\<open>run\<close>: all but Contains and Sum with the
  nil function.
\<close>

definition runs_pipeline :: "'a tcall \<Rightarrow> bool" where
  "runs_pipeline t = (case t of TSum None \<Rightarrow> False | TContains item eq \<Rightarrow> False | _ \<Rightarrow> True)"

text \<open>
  What holds of the struct from the constructor on: the buffer is the input, every
  index is live, and there is one worker.
\<close>

definition pristine :: "'a list \<Rightarrow> 'a stream \<Rightarrow> bool" where
  "pristine xs st \<longleftrightarrow>
     dt st = xs \<and> bm st = replicate (length xs) True \<and> wrksCnt st = 1"

subsection \<open>Streams behind pointers\<close>

text \<open>
  The methods have pointer receivers and return the receiver. A store maps addresses
  to structs; \<^verbatim>\<open>nxt\<close> is the first address not yet allocated. The constructor is
  the only function of the file that allocates a stream.
\<close>

record 'a store =
  cells :: "nat \<Rightarrow> 'a stream"
  nxt :: nat

definition Stream_ref :: "'a list \<Rightarrow> 'a store \<Rightarrow> nat \<times> 'a store" where
  "Stream_ref data h =
     (nxt h, h\<lparr>cells := (cells h)(nxt h := Stream data), nxt := nxt h + 1\<rparr>)"

definition register_ref :: "'a call \<Rightarrow> nat \<Rightarrow> 'a store \<Rightarrow> nat \<times> 'a store" where
  "register_ref c r h = (r, h\<lparr>cells := (cells h)(r := register c (cells h r))\<rparr>)"

subsection \<open>A worker handling a task\<close>








subsection \<open>Events of a pipeline run\<close>




section \<open>Properties\<close>

subsection \<open>Helper facts\<close>

lemma PutLine_fresh: "PutLine 0 n True [] = replicate n True"
  by (auto simp: PutLine_def intro: nth_equalityI)

lemma Apply_all_live: "Apply (replicate (length xs) True) xs = xs"
  by (auto simp: Apply_def Get_def intro: nth_equalityI)

lemma nextOp_no_ops:
  "ops st = [] \<Longrightarrow> nextOp st = (Panicked IndexOutOfRange, st\<lparr>opsIdx := opsIdx st + 1\<rparr>)"
  by (simp add: nextOp_def Let_def)

lemma addTasks_no_ops:
  "ops st = [] \<Longrightarrow> wrksCnt st \<noteq> 0 \<Longrightarrow> fst (addTasks m st) = Panicked IndexOutOfRange"
  by (simp add: addTasks_def Let_def nextOp_no_ops)

lemma run_no_ops:
  "ops st = [] \<Longrightarrow> wrksCnt st \<noteq> 0 \<Longrightarrow> \<not> onceRun st \<Longrightarrow>
   fst (run m st) = Panicked IndexOutOfRange"
  using addTasks_no_ops [of st m]
  by (cases "addTasks m st") (auto simp: run_def split: outcome.splits)

lemma Slice_no_ops:
  "ops st = [] \<Longrightarrow> wrksCnt st \<noteq> 0 \<Longrightarrow> \<not> onceRun st \<Longrightarrow>
   fst (Slice m st) = Panicked IndexOutOfRange"
  using run_no_ops [of "st\<lparr>fns := fns st @ [SliceFn]\<rparr>" m]
  by (cases "run m (st\<lparr>fns := fns st @ [SliceFn]\<rparr>)")
     (auto simp: Slice_def split: outcome.splits)

lemma Count_no_ops:
  "ops st = [] \<Longrightarrow> wrksCnt st \<noteq> 0 \<Longrightarrow> \<not> onceRun st \<Longrightarrow>
   fst (Count m st) = Panicked IndexOutOfRange"
  using run_no_ops [of st m]
  by (cases "run m st") (auto simp: Count_def split: outcome.splits)

lemma NoneT_no_ops:
  "ops st = [] \<Longrightarrow> wrksCnt st \<noteq> 0 \<Longrightarrow> \<not> onceRun st \<Longrightarrow>
   fst (NoneT m st) = Panicked IndexOutOfRange"
  using Count_no_ops [of st m]
  by (cases "Count m st") (auto simp: NoneT_def split: outcome.splits)

lemma Any_no_ops:
  "ops st = [] \<Longrightarrow> wrksCnt st \<noteq> 0 \<Longrightarrow> \<not> onceRun st \<Longrightarrow>
   fst (Any m st) = Panicked IndexOutOfRange"
  using NoneT_no_ops [of st m]
  by (cases "NoneT m st") (auto simp: Any_def split: outcome.splits)

lemma Sum_no_ops:
  "ops st = [] \<Longrightarrow> wrksCnt st \<noteq> 0 \<Longrightarrow> \<not> onceRun st \<Longrightarrow>
   fst (Sum m (Some f) st) = Panicked IndexOutOfRange"
  using run_no_ops [of "st\<lparr>fns := fns st @ [SumFn f]\<rparr>" m]
  by (cases "run m (st\<lparr>fns := fns st @ [SumFn f]\<rparr>)")
     (auto simp: Sum_def split: outcome.splits)

lemma PutLine_all_live: "PutLine 0 n True (replicate n True) = replicate n True"
  by (auto simp: PutLine_def Get_def intro: nth_equalityI)

lemma pristine_Stream: "pristine xs (Stream xs)"
  by (simp add: pristine_def Stream_def PutLine_fresh)

lemma pristine_register: "pristine xs st \<Longrightarrow> pristine xs (register c st)"
  by (cases c)
     (simp_all add: pristine_def Skip_def Trim_def Map_def Reduce_def Filter_def
        Sorted_def Split_def Go_def)

lemma pristine_nextOp: "pristine xs st \<Longrightarrow> pristine xs (snd (nextOp st))"
  by (simp add: pristine_def nextOp_def Let_def)

lemma pristine_addTasks: "pristine xs st \<Longrightarrow> pristine xs (snd (addTasks m st))"
proof -
  assume p: "pristine xs st"
  let ?st1 = "st\<lparr>dt := Apply (bm st) (dt st),
                  bm := PutLine 0 (length (Apply (bm st) (dt st))) True (bm st)\<rparr>"
  from p have p1: "pristine xs ?st1"
    by (simp add: pristine_def Apply_all_live PutLine_all_live)
  then have p2: "pristine xs (snd (nextOp ?st1))"
    by (rule pristine_nextOp)
  from p1 have w: "wrksCnt ?st1 \<noteq> 0" by (simp add: pristine_def)
  show ?thesis
    using p2 w
    by (cases "nextOp ?st1") (auto simp: addTasks_def Let_def split: outcome.splits)
qed

lemma pristine_run: "pristine xs st \<Longrightarrow> pristine xs (snd (run m st))"
  using pristine_addTasks [of xs st m]
  by (cases "addTasks m st")
     (auto simp: run_def startWorkers_def pristine_def split: outcome.splits)

lemma snd_lift_outcome: "snd (lift_outcome g p) = snd p"
  by (cases p) (auto simp: lift_outcome_def split: outcome.splits)

lemma pristine_fns: "pristine xs (st\<lparr>fns := v\<rparr>) = pristine xs st"
  by (simp add: pristine_def)

lemma snd_Slice: "snd (Slice m st) = snd (run m (st\<lparr>fns := fns st @ [SliceFn]\<rparr>))"
  by (cases "run m (st\<lparr>fns := fns st @ [SliceFn]\<rparr>)") (auto simp: Slice_def split: outcome.splits)

lemma snd_Count: "snd (Count m st) = snd (run m st)"
  by (cases "run m st") (auto simp: Count_def split: outcome.splits)

lemma snd_NoneT: "snd (NoneT m st) = snd (run m st)"
  using snd_Count [of m st]
  by (cases "Count m st") (auto simp: NoneT_def split: outcome.splits)

lemma snd_Any: "snd (Any m st) = snd (run m st)"
  using snd_NoneT [of m st]
  by (cases "NoneT m st") (auto simp: Any_def split: outcome.splits)

lemma snd_Sum_Some: "snd (Sum m (Some f) st) = snd (run m (st\<lparr>fns := fns st @ [SumFn f]\<rparr>))"
  by (cases "run m (st\<lparr>fns := fns st @ [SumFn f]\<rparr>)") (auto simp: Sum_def split: outcome.splits)

lemma snd_Sum_None: "snd (Sum m None st) = st"
  by (simp add: Sum_def)

lemma snd_Contains: "snd (Contains item eq st) = st"
  by (simp add: Contains_def)

lemma pristine_terminal: "pristine xs st \<Longrightarrow> pristine xs (snd (terminal m t st))"
proof (cases t)
  case (TSum sumf)
  then show "pristine xs st \<Longrightarrow> ?thesis"
    by (cases sumf)
       (simp_all add: snd_lift_outcome snd_Sum_None snd_Sum_Some pristine_run pristine_fns)
qed (simp_all add: snd_lift_outcome snd_Slice snd_Count snd_NoneT snd_Any snd_Contains
       pristine_run pristine_fns)

lemma pristine_act: "pristine xs st \<Longrightarrow> pristine xs (act m st a)"
  by (cases a) (simp_all add: pristine_register pristine_terminal)

lemma pristine_after: "pristine xs st \<Longrightarrow> pristine xs (after m acts st)"
  unfolding after_def
  by (induction acts arbitrary: st) (simp_all add: pristine_act)

lemma contains_loop_iff: "contains_loop xs item eq \<longleftrightarrow> (\<exists>x\<in>set xs. eq x item)"
  by (induction xs) auto


lemma run_Returned: "run m st = (Returned u, st1) \<Longrightarrow> onceRun st1"
  by (cases "addTasks m st") (auto simp: run_def split: if_splits outcome.splits)

lemma run_once: "onceRun st \<Longrightarrow> run m st = (Returned (), st)"
  by (simp add: run_def)

lemma Slice_Returned: "Slice m st = (Returned v, st1) \<Longrightarrow> v = [] \<and> onceRun st1"
  by (cases "run m (st\<lparr>fns := fns st @ [SliceFn]\<rparr>)")
     (auto simp: Slice_def split: outcome.splits dest: run_Returned)

lemma Slice_once: "onceRun st \<Longrightarrow> Slice m st = (Returned [], st\<lparr>fns := fns st @ [SliceFn]\<rparr>)"
  by (simp add: Slice_def run_once)

lemma Count_Returned:
  "Count m st = (Returned c, st1) \<Longrightarrow> c = int (CountOnes (bm st1)) \<and> onceRun st1"
  by (cases "run m st") (auto simp: Count_def split: outcome.splits dest: run_Returned)

lemma Count_once: "onceRun st \<Longrightarrow> Count m st = (Returned (int (CountOnes (bm st))), st)"
  by (simp add: Count_def run_once)

lemma NoneT_Returned:
  "NoneT m st = (Returned b, st1) \<Longrightarrow> b = (CountOnes (bm st1) = 0) \<and> onceRun st1"
  by (cases "Count m st") (auto simp: NoneT_def split: outcome.splits dest: Count_Returned)

lemma NoneT_once: "onceRun st \<Longrightarrow> NoneT m st = (Returned (CountOnes (bm st) = 0), st)"
  by (simp add: NoneT_def Count_once)

lemma Any_Returned:
  "Any m st = (Returned b, st1) \<Longrightarrow> b = (CountOnes (bm st1) \<noteq> 0) \<and> onceRun st1"
  by (cases "NoneT m st") (auto simp: Any_def split: outcome.splits dest: NoneT_Returned)

lemma Any_once: "onceRun st \<Longrightarrow> Any m st = (Returned (CountOnes (bm st) \<noteq> 0), st)"
  by (simp add: Any_def NoneT_once)

lemma Sum_Some_Returned: "Sum m (Some f) st = (Returned v, st1) \<Longrightarrow> v = 0 \<and> onceRun st1"
  by (cases "run m (st\<lparr>fns := fns st @ [SumFn f]\<rparr>)")
     (auto simp: Sum_def split: outcome.splits dest: run_Returned)

lemma Sum_Some_once:
  "onceRun st \<Longrightarrow> Sum m (Some f) st = (Returned 0, st\<lparr>fns := fns st @ [SumFn f]\<rparr>)"
  by (simp add: Sum_def run_once)

lemma lift_outcome_Returned:
  "lift_outcome g p = (Returned v, s) \<Longrightarrow> \<exists>w. p = (Returned w, s) \<and> v = g w"
  by (cases p) (auto simp: lift_outcome_def split: outcome.splits)

lemma lift_outcome_simp: "lift_outcome g (Returned w, s) = (Returned (g w), s)"
  by (simp add: lift_outcome_def)

lemma run_not_Blocked: "run m st = (r, st1) \<Longrightarrow> r \<noteq> Blocked \<Longrightarrow> onceRun st1"
  by (cases "addTasks m st") (auto simp: run_def split: if_splits outcome.splits)

lemma fst_lift_outcome_Blocked: "fst (lift_outcome g p) = Blocked \<longleftrightarrow> fst p = Blocked"
  by (cases p) (auto simp: lift_outcome_def split: outcome.splits)

lemma fst_Slice_Blocked:
  "fst (Slice m st) = Blocked \<longleftrightarrow> fst (run m (st\<lparr>fns := fns st @ [SliceFn]\<rparr>)) = Blocked"
  by (cases "run m (st\<lparr>fns := fns st @ [SliceFn]\<rparr>)") (auto simp: Slice_def split: outcome.splits)

lemma fst_Count_Blocked: "fst (Count m st) = Blocked \<longleftrightarrow> fst (run m st) = Blocked"
  by (cases "run m st") (auto simp: Count_def split: outcome.splits)

lemma fst_NoneT_Blocked: "fst (NoneT m st) = Blocked \<longleftrightarrow> fst (run m st) = Blocked"
  using fst_Count_Blocked [of m st]
  by (cases "Count m st") (auto simp: NoneT_def split: outcome.splits)

lemma fst_Any_Blocked: "fst (Any m st) = Blocked \<longleftrightarrow> fst (run m st) = Blocked"
  using fst_NoneT_Blocked [of m st]
  by (cases "NoneT m st") (auto simp: Any_def split: outcome.splits)

lemma fst_Sum_Some_Blocked:
  "fst (Sum m (Some f) st) = Blocked \<longleftrightarrow> fst (run m (st\<lparr>fns := fns st @ [SumFn f]\<rparr>)) = Blocked"
  by (cases "run m (st\<lparr>fns := fns st @ [SumFn f]\<rparr>)") (auto simp: Sum_def split: outcome.splits)

lemma onceRun_after_run: "fst (run m st) \<noteq> Blocked \<Longrightarrow> onceRun (snd (run m st))"
  by (cases "run m st") (auto dest: run_not_Blocked)

lemma terminal_closes_gate:
  assumes "runs_pipeline t" and "fst (terminal m t st) \<noteq> Blocked"
  shows "onceRun (snd (terminal m t st))"
proof (cases t)
  case (TSum sumf)
  with assms obtain f where "sumf = Some f"
    by (cases sumf) (auto simp: runs_pipeline_def)
  with assms TSum show ?thesis
    by (simp add: fst_lift_outcome_Blocked snd_lift_outcome fst_Sum_Some_Blocked snd_Sum_Some
          onceRun_after_run)
next
  case (TContains item eq)
  with assms show ?thesis by (simp add: runs_pipeline_def)
qed (use assms in \<open>simp_all add: fst_lift_outcome_Blocked snd_lift_outcome fst_Slice_Blocked
       snd_Slice fst_Count_Blocked snd_Count fst_NoneT_Blocked snd_NoneT fst_Any_Blocked
       snd_Any onceRun_after_run\<close>)

lemma terminal_gate_closed:
  assumes "onceRun st \<or> \<not> runs_pipeline t"
  shows "dt (snd (terminal m t st)) = dt st
         \<and> bm (snd (terminal m t st)) = bm st
         \<and> ops (snd (terminal m t st)) = ops st
         \<and> opsIdx (snd (terminal m t st)) = opsIdx st
         \<and> parked (snd (terminal m t st)) = parked st"
proof (cases t)
  case (TSum sumf)
  show ?thesis
  proof (cases sumf)
    case None
    with TSum show ?thesis by (simp add: snd_lift_outcome snd_Sum_None)
  next
    case (Some f)
    with TSum assms have "onceRun st" by (simp add: runs_pipeline_def)
    with TSum Some show ?thesis
      by (simp add: snd_lift_outcome snd_Sum_Some run_once)
  qed
next
  case (TContains item eq)
  then show ?thesis by (simp add: snd_lift_outcome snd_Contains)
qed (use assms in \<open>simp_all add: runs_pipeline_def snd_lift_outcome snd_Slice snd_Count
       snd_NoneT snd_Any run_once\<close>)

lemma terminal_Returned_again:
  assumes "terminal m t st = (Returned v, st1)"
  shows "fst (terminal m t st1) = Returned v"
proof (cases t)
  case TSlice
  with assms obtain w where "Slice m st = (Returned w, st1)" and "v = RSlice w"
    by (auto dest: lift_outcome_Returned)
  then show ?thesis using TSlice
    by (auto dest!: Slice_Returned simp: Slice_once lift_outcome_simp)
next
  case TAny
  with assms obtain w where "Any m st = (Returned w, st1)" and "v = RBool w"
    by (auto dest: lift_outcome_Returned)
  then show ?thesis using TAny
    by (auto dest!: Any_Returned simp: Any_once lift_outcome_simp)
next
  case TNone
  with assms obtain w where "NoneT m st = (Returned w, st1)" and "v = RBool w"
    by (auto dest: lift_outcome_Returned)
  then show ?thesis using TNone
    by (auto dest!: NoneT_Returned simp: NoneT_once lift_outcome_simp)
next
  case TCount
  with assms obtain w where "Count m st = (Returned w, st1)" and "v = RInt w"
    by (auto dest: lift_outcome_Returned)
  then show ?thesis using TCount
    by (auto dest!: Count_Returned simp: Count_once lift_outcome_simp)
next
  case (TSum sumf)
  with assms obtain w where w: "Sum m sumf st = (Returned w, st1)" and v: "v = RInt64 w"
    by (auto dest: lift_outcome_Returned)
  show ?thesis
  proof (cases sumf)
    case None
    with w v TSum show ?thesis by (auto simp: Sum_def lift_outcome_simp)
  next
    case (Some f)
    with w v TSum show ?thesis
      by (auto dest!: Sum_Some_Returned simp: Sum_Some_once lift_outcome_simp)
  qed
next
  case (TContains item eq)
  with assms show ?thesis
    by (auto simp: Contains_def lift_outcome_simp dest: lift_outcome_Returned)
qed

lemma nextOp_in_range:
  "opsIdx st < length (ops st) \<Longrightarrow>
   nextOp st = (Returned (ops st ! opsIdx st), st\<lparr>opsIdx := opsIdx st + 1\<rparr>)"
  by (simp add: nextOp_def Let_def)

lemma run_blocks:
  assumes "pristine (x # xs) st" and "opsIdx st < length (ops st)" and "\<not> onceRun st"
  shows "fst (run m st) = Blocked"
proof -
  have "fst (addTasks m st) = Blocked"
    using assms
    by (simp add: addTasks_def Let_def pristine_def Apply_all_live [of "x # xs", simplified]
          nextOp_in_range addTasks_loop_def)
  then show ?thesis
    using assms(3) by (cases "addTasks m st") (auto simp: run_def split: outcome.splits)
qed

lemma Slice_blocks:
  assumes "pristine (x # xs) st" and "opsIdx st < length (ops st)" and "\<not> onceRun st"
  shows "fst (Slice m st) = Blocked"
  using run_blocks [of x xs "st\<lparr>fns := fns st @ [SliceFn]\<rparr>" m] assms
  by (simp add: fst_Slice_Blocked pristine_fns)

lemma Sum_blocks:
  assumes "pristine (x # xs) st" and "opsIdx st < length (ops st)" and "\<not> onceRun st"
  shows "fst (Sum m (Some f) st) = Blocked"
  using run_blocks [of x xs "st\<lparr>fns := fns st @ [SumFn f]\<rparr>" m] assms
  by (simp add: fst_Sum_Some_Blocked pristine_fns)

text \<open>Once a terminal call has come back, the same call does not run the pipeline again.\<close>

lemma terminal_second_call:
  assumes "terminal m t st = (r, st1)" and "r \<noteq> Blocked"
  shows "(r = Returned v \<longrightarrow> fst (terminal m t st1) = Returned v)
         \<and> dt (snd (terminal m t st1)) = dt st1
         \<and> bm (snd (terminal m t st1)) = bm st1
         \<and> ops (snd (terminal m t st1)) = ops st1
         \<and> opsIdx (snd (terminal m t st1)) = opsIdx st1
         \<and> parked (snd (terminal m t st1)) = parked st1"
proof -
  have "onceRun st1 \<or> \<not> runs_pipeline t"
    using terminal_closes_gate [of t m st] assms by auto
  then have "dt (snd (terminal m t st1)) = dt st1
         \<and> bm (snd (terminal m t st1)) = bm st1
         \<and> ops (snd (terminal m t st1)) = ops st1
         \<and> opsIdx (snd (terminal m t st1)) = opsIdx st1
         \<and> parked (snd (terminal m t st1)) = parked st1"
    by (rule terminal_gate_closed)
  moreover have "r = Returned v \<longrightarrow> fst (terminal m t st1) = Returned v"
    using assms(1) by (auto dest: terminal_Returned_again)
  ultimately show ?thesis by simp
qed














lemma CountOnes_replicate: "CountOnes (replicate n True) = n"
  by (simp add: CountOnes_def)

lemma Count_twice:
  assumes "pristine xs st" and "ops st = []" and "\<not> onceRun st"
  shows "fst (Count m st) = Panicked IndexOutOfRange
         \<and> fst (Count m (snd (Count m st))) = Returned (int (length xs))"
proof -
  from assms have w: "wrksCnt st \<noteq> 0" by (simp add: pristine_def)
  have p: "fst (run m st) = Panicked IndexOutOfRange"
    using assms w by (simp add: run_no_ops)
  then have o: "onceRun (snd (run m st))" by (simp add: onceRun_after_run)
  have q: "pristine xs (snd (run m st))" using assms(1) by (rule pristine_run)
  have "fst (Count m st) = Panicked IndexOutOfRange"
    using assms w by (simp add: Count_no_ops)
  moreover have "fst (Count m (snd (Count m st))) = Returned (int (length xs))"
    using o q by (simp add: snd_Count Count_once pristine_def CountOnes_replicate)
  ultimately show ?thesis by simp
qed

lemma Slice_twice:
  assumes "pristine xs st" and "ops st = []" and "\<not> onceRun st"
  shows "fst (Slice m st) = Panicked IndexOutOfRange
         \<and> fst (Slice m (snd (Slice m st))) = Returned []"
proof -
  let ?s = "st\<lparr>fns := fns st @ [SliceFn]\<rparr>"
  from assms have w: "wrksCnt st \<noteq> 0" by (simp add: pristine_def)
  have p: "fst (run m ?s) = Panicked IndexOutOfRange"
    using assms w by (simp add: run_no_ops)
  then have o: "onceRun (snd (run m ?s))" by (simp add: onceRun_after_run)
  have "fst (Slice m st) = Panicked IndexOutOfRange"
    using assms w by (simp add: Slice_no_ops)
  moreover have "fst (Slice m (snd (Slice m st))) = Returned []"
    using o by (simp add: snd_Slice Slice_once)
  ultimately show ?thesis by simp
qed

subsection \<open>Filter and Slice\<close>

text \<open>
  Claim C1. Filter(p) followed by Slice() should return the elements of the input that
  satisfy p, in their order. In the code Filter appends its closure to \<^verbatim>\<open>fns\<close> and
  leaves the stage list \<^verbatim>\<open>ops\<close> empty, so the first \<^verbatim>\<open>nextOp\<close> of the run reads
  \<^verbatim>\<open>ops[0]\<close> of an empty list: for every input and every predicate the call panics
  with an index out of range and returns no slice. With a Map stage registered as well
  and an input that is not empty, the call parks on the send of the first task. At the
  input [1, 2, 3] with the predicate 1 < x the claimed result is [2, 3].
\<close>

theorem C1_filter_slice_panics:
  "fst (Slice m (Filter p (Stream xs))) = Panicked IndexOutOfRange
   \<and> fst (Slice m (Filter p (Map u f (Stream (x # xs))))) = Blocked
   \<and> fst (Slice m (Filter (\<lambda>x. 1 < x) (Stream [1, 2, 3 :: int]))) \<noteq> Returned [2, 3]"
proof -
  have "fst (Slice m (Filter p (Map u f (Stream (x # xs))))) = Blocked"
    by (rule Slice_blocks [where x = x and xs = xs])
       (simp_all add: pristine_def Filter_def Map_def Stream_def PutLine_fresh)
  then show ?thesis
    by (simp add: Slice_no_ops Filter_def Stream_def)
qed

subsection \<open>Sorted and Slice\<close>

text \<open>
  Claim C2. Sorted(less) followed by Slice() should return a permutation of the input
  that is ordered under less, and the sorting stage should never compare an element
  with itself. In the code the call panics for every input, as it does for Filter, or
  parks when a Map stage is registered too; and the comparison that Sorted hands to
  the sort compares element j with itself: on [2, 1] at (i, j) = (1, 0) it answers
  2 < 2, where 1 < 2 is asked.
\<close>

theorem C2_sorted_slice_panics:
  "fst (Slice m (Sorted lss (Stream xs))) = Panicked IndexOutOfRange
   \<and> fst (Slice m (Sorted lss (Map u f (Stream (x # xs))))) = Blocked
   \<and> sorted_cmp (<) [2, 1 :: int] 1 0 \<noteq> ((1 :: int) < 2)"
proof -
  have "fst (Slice m (Sorted lss (Map u f (Stream (x # xs))))) = Blocked"
    by (rule Slice_blocks [where x = x and xs = xs])
       (simp_all add: pristine_def Sorted_def Map_def Stream_def PutLine_fresh)
  then show ?thesis
    by (simp add: Slice_no_ops Sorted_def Stream_def sorted_cmp_def)
qed

subsection \<open>Sum\<close>

text \<open>
  Claim C3. Sum(f) should return the left fold of f over the input from the zero
  seed. In the code the fold happens inside a closure appended to \<^verbatim>\<open>fns\<close>; the
  call panics for every input, or parks when a Map stage is registered and the input is
  not empty. At the input [1, 2, 3] with addition the claimed result is 6.
\<close>

theorem C3_sum_panics:
  "fst (Sum m (Some g) (Stream xs)) = Panicked IndexOutOfRange
   \<and> fst (Sum m (Some g) (Map u f (Stream (x # xs)))) = Blocked
   \<and> fst (Sum m (Some (\<lambda>s x. s + x)) (Stream [1, 2, 3 :: int64]))
       \<noteq> Returned (foldl (\<lambda>s x. s + x) 0 [1, 2, 3])"
proof -
  have "fst (Sum m (Some g) (Map u f (Stream (x # xs)))) = Blocked"
    by (rule Sum_blocks [where x = x and xs = xs])
       (simp_all add: pristine_def Map_def Stream_def PutLine_fresh)
  then show ?thesis
    by (simp add: Sum_no_ops Stream_def)
qed

subsection \<open>The barrier gate of the worker\<close>



subsection \<open>Calling a terminal operation twice\<close>

text \<open>
  Claim C5. A second call of a terminal operation should return what the first call
  returned. In the code the first Count or Slice on a stream that has a Filter stage
  only panics inside the \<^verbatim>\<open>sync.Once\<close>, which is marked done by the panic; the
  second call then skips the run and returns a value: Count the length of the input,
  Slice the nil slice. On [1, 2, 3] the first Count panics and the second returns 3.
\<close>

theorem C5_first_panics_second_returns:
  "fst (terminal m TCount (Filter p (Stream xs))) = Panicked IndexOutOfRange
   \<and> fst (terminal m TCount (snd (terminal m TCount (Filter p (Stream xs)))))
       = Returned (RInt (int (length xs)))
   \<and> fst (terminal m TSlice (Filter p (Stream xs))) = Panicked IndexOutOfRange
   \<and> fst (terminal m TSlice (snd (terminal m TSlice (Filter p (Stream xs)))))
       = Returned (RSlice [])
   \<and> fst (terminal m TCount (Filter (\<lambda>x. 1 < x) (Stream [1, 2, 3 :: int])))
       \<noteq> fst (terminal m TCount
                (snd (terminal m TCount (Filter (\<lambda>x. 1 < x) (Stream [1, 2, 3 :: int])))))"
proof -
  have pr: "pristine ys (Filter q (Stream ys))" for q and ys :: "'b list"
    using pristine_register [OF pristine_Stream, of ys "CFilter q"] by simp
  have a: "ops (Filter q (Stream ys)) = [] \<and> \<not> onceRun (Filter q (Stream ys))"
    for q and ys :: "'b list"
    by (simp add: Filter_def Stream_def)
  have c: "fst (Count m (Filter q (Stream ys))) = Panicked IndexOutOfRange
         \<and> fst (Count m (snd (Count m (Filter q (Stream ys))))) = Returned (int (length ys))"
    for q and ys :: "'b list"
    using Count_twice [OF pr] a by blast
  have s: "fst (Slice m (Filter q (Stream ys))) = Panicked IndexOutOfRange
         \<and> fst (Slice m (snd (Slice m (Filter q (Stream ys))))) = Returned []"
    for q and ys :: "'b list"
    using Slice_twice [OF pr] a by blast
  have l: "fst (lift_outcome g z) = (case fst z of Returned v \<Rightarrow> Returned (g v)
             | Panicked e \<Rightarrow> Panicked e | Blocked \<Rightarrow> Blocked)" for g :: "'c \<Rightarrow> 'd" and z :: "'c outcome \<times> 'e"
    by (cases z) (auto simp: lift_outcome_def split: outcome.splits)
  show ?thesis
    by (simp add: l snd_lift_outcome c s)
qed

subsection \<open>The empty input\<close>

text \<open>
  Claim C6. On the empty input every terminal operation should return its zero result
  without blocking and without faulting. In the code Slice, Any, None, Count and Sum
  with a function panic on the fresh stream of the empty input: \<^verbatim>\<open>addTasks\<close>
  calls \<^verbatim>\<open>nextOp\<close> before it looks at the length of the buffer, and the stage list
  is empty.
\<close>

theorem C6_empty_input_panics:
  "fst (Slice m (Stream [])) = Panicked IndexOutOfRange
   \<and> fst (Any m (Stream [])) = Panicked IndexOutOfRange
   \<and> fst (NoneT m (Stream [])) = Panicked IndexOutOfRange
   \<and> fst (Count m (Stream [])) = Panicked IndexOutOfRange
   \<and> fst (Sum m (Some f) (Stream [])) = Panicked IndexOutOfRange"
  by (simp add: Slice_no_ops Any_no_ops NoneT_no_ops Count_no_ops Sum_no_ops Stream_def)

subsection \<open>Go\<close>

text \<open>
  Claim C7. Go(n) should set the worker count for the stages declared after it. In the
  code Go returns the stream as it is: the worker count is 1 after every sequence of
  calls, whatever Go calls it holds, for instance after Go(4) and a Map stage.
\<close>

theorem C7_go_is_identity:
  "Go n st = st
   \<and> wrksCnt (after m acts (Stream xs)) = 1
   \<and> wrksCnt (Map 0 f (Go 4 (Stream xs))) = 1"
proof -
  have "pristine xs (after m acts (Stream xs))"
    by (rule pristine_after [OF pristine_Stream])
  then show ?thesis by (simp add: pristine_def Go_def Map_def Stream_def)
qed

subsection \<open>Contains\<close>

text \<open>
  Claim C8. Contains(item, eq) returns true if and only if some element of the input
  satisfies eq with item, whatever calls were made on the stream before; it reads
  the buffer only, not the stages or the tracker, and leaves the struct as it is.
\<close>

theorem C8_contains_reads_input:
  "fst (Contains item eq (after m acts (Stream xs))) = Returned (\<exists>x\<in>set xs. eq x item)
   \<and> snd (Contains item eq st) = st
   \<and> fst (Contains item eq st) = Returned (\<exists>x\<in>set (dt st). eq x item)"
proof -
  have "pristine xs (after m acts (Stream xs))"
    by (rule pristine_after [OF pristine_Stream])
  then have "dt (after m acts (Stream xs)) = xs" by (simp add: pristine_def)
  then show ?thesis by (simp add: Contains_def contains_loop_iff)
qed

theorem C8_contains_reads_input_witness:
  "fst (Contains 1 (=) (after 0 [Reg (CFilter (\<lambda>x. 1 < x))] (Stream [1, 2, 3 :: int])))
     = Returned True"
proof -
  have "fst (Contains 1 (=) (after 0 [Reg (CFilter (\<lambda>x. 1 < x))] (Stream [1, 2, 3 :: int])))
          = Returned (\<exists>x\<in>set [1, 2, 3 :: int]. x = 1)"
    by (rule conjunct1 [OF C8_contains_reads_input])
  then show ?thesis by simp
qed

subsection \<open>Split\<close>

text \<open>
  Claim C9. Registering Split should fail fast with a signal that it is not supported,
  and should not behave as the identity. In the code Split returns the stream as it
  is and signals nothing.
\<close>

theorem C9_split_is_identity:
  "Split sp st = st \<and> Split sp (Stream [1, 2, 3 :: int]) = Stream [1, 2, 3]"
  by (simp add: Split_def)

subsection \<open>Registration returns the receiver\<close>

text \<open>
  Claim C10. Every registration and configuration call returns the address it was
  called on and allocates nothing; two pipelines declared from one saved address are
  the same address, and the struct there holds the stages of both, for instance a
  Filter declared on one branch and a Skip declared on the other.
\<close>

theorem C10_registration_returns_receiver:
  "fst (register_ref c r h) = r
   \<and> nxt (snd (register_ref c r h)) = nxt h
   \<and> fst (register_ref c2 r (snd (register_ref c1 r h))) = fst (register_ref c1 r h)
   \<and> cells (snd (register_ref c2 r (snd (register_ref c1 r h)))) r
       = register c2 (register c1 (cells h r))
   \<and> fns (cells (snd (register_ref (CSkip k) r (snd (register_ref (CFilter p) r h)))) r)
       = fns (cells h r) @ [FilterFn p, SkipFn k]"
  by (simp add: register_ref_def Skip_def Filter_def)

end
